theory Spec2Isabelle
  imports Main "HOL-Library.Product_Lexorder" "HOL-Library.Multiset"
begin

section \<open>JavaScript values used by the sync core\<close>

text \<open>
  A JavaScript string is a sequence of UTF-16 code units; payload text, JSON text and
  base64 text are lists of code units (\<open>nat\<close>), so that text outside Latin-1 exists in
  the model. Identifiers the engine only compares (item ids, type names, action names,
  event type names) are written as HOL strings.
\<close>

type_synonym jsstring = "nat list"

definition ascii :: "string \<Rightarrow> jsstring" where
  "ascii s = map of_char s"

text \<open>The payload \<open>data: any\<close>, restricted to the values JSON represents exactly
  (numbers to integers).\<close>

datatype json =
    JNull
  | JBool bool
  | JNum int
  | JStr jsstring
  | JArr "json list"
  | JObj "(jsstring \<times> json) list"

datatype js_error =
    InvalidCharacterError
  | SyntaxError
  | Error string
  | Rejected string

subsection \<open>JSON.stringify\<close>

text \<open>
  \<open>JSON.stringify\<close> and \<open>btoa\<close> are functions of the JavaScript engine, written out
  here as ECMAScript and the HTML standard define them: \<open>JSON.stringify\<close> escapes the
  quote, the backslash, the control characters and lone surrogates and leaves every other
  code unit as it is; \<open>btoa\<close> encodes a string of code units up to 0xFF in base64.
\<close>

definition digitChar :: "nat \<Rightarrow> char" where
  "digitChar d = ''0123456789'' ! d"

fun showNat :: "nat \<Rightarrow> string" where
  "showNat n = (if n < 10 then [digitChar n] else showNat (n div 10) @ [digitChar (n mod 10)])"

declare showNat.simps [simp del]

definition showInt :: "int \<Rightarrow> string" where
  "showInt i = (if i < 0 then CHR ''-'' # showNat (nat (- i)) else showNat (nat i))"

definition hexDigit :: "nat \<Rightarrow> nat" where
  "hexDigit d = (if d < 10 then 48 + d else 87 + d)"

definition unicodeEscape :: "nat \<Rightarrow> jsstring" where
  "unicodeEscape c =
     [92, 117, hexDigit (c div 4096 mod 16), hexDigit (c div 256 mod 16),
      hexDigit (c div 16 mod 16), hexDigit (c mod 16)]"

definition isLeadingSurrogate :: "nat \<Rightarrow> bool" where
  "isLeadingSurrogate c = (55296 \<le> c \<and> c \<le> 56319)"

definition isTrailingSurrogate :: "nat \<Rightarrow> bool" where
  "isTrailingSurrogate c = (56320 \<le> c \<and> c \<le> 57343)"

definition escapeUnit :: "nat \<Rightarrow> jsstring" where
  "escapeUnit c =
     (if c = 8 then [92, 98]
      else if c = 9 then [92, 116]
      else if c = 10 then [92, 110]
      else if c = 12 then [92, 102]
      else if c = 13 then [92, 114]
      else if c = 34 then [92, 34]
      else if c = 92 then [92, 92]
      else if c < 32 then unicodeEscape c
      else [c])"

fun quoteUnits :: "jsstring \<Rightarrow> jsstring" where
  "quoteUnits [] = []"
| "quoteUnits [c] =
     (if isLeadingSurrogate c \<or> isTrailingSurrogate c then unicodeEscape c else escapeUnit c)"
| "quoteUnits (c # d # cs) =
     (if isLeadingSurrogate c then
        (if isTrailingSurrogate d then c # d # quoteUnits cs
         else unicodeEscape c @ quoteUnits (d # cs))
      else if isTrailingSurrogate c then unicodeEscape c @ quoteUnits (d # cs)
      else escapeUnit c @ quoteUnits (d # cs))"

definition quoteJSONString :: "jsstring \<Rightarrow> jsstring" where
  "quoteJSONString s = 34 # quoteUnits s @ [34]"

fun joinComma :: "jsstring list \<Rightarrow> jsstring" where
  "joinComma [] = []"
| "joinComma [x] = x"
| "joinComma (x # y # ys) = x @ 44 # joinComma (y # ys)"

fun JSON_stringify :: "json \<Rightarrow> jsstring" where
  "JSON_stringify JNull = ascii ''null''"
| "JSON_stringify (JBool b) = (if b then ascii ''true'' else ascii ''false'')"
| "JSON_stringify (JNum i) = ascii (showInt i)"
| "JSON_stringify (JStr s) = quoteJSONString s"
| "JSON_stringify (JArr xs) = 91 # joinComma (map JSON_stringify xs) @ [93]"
| "JSON_stringify (JObj kvs) =
     123 # joinComma (map (\<lambda>kv. quoteJSONString (fst kv) @ 58 # JSON_stringify (snd kv)) kvs) @ [125]"

subsection \<open>btoa\<close>

definition base64Alphabet :: "jsstring" where
  "base64Alphabet = ascii ''ABCDEFGHIJKLMNOPQRSTUVWXYZabcdefghijklmnopqrstuvwxyz0123456789+/''"

definition b64 :: "nat \<Rightarrow> nat" where
  "b64 n = base64Alphabet ! n"

fun base64 :: "nat list \<Rightarrow> jsstring" where
  "base64 [] = []"
| "base64 [a] = [b64 (a div 4), b64 (a mod 4 * 16), 61, 61]"
| "base64 [a, b] = [b64 (a div 4), b64 (a mod 4 * 16 + b div 16), b64 (b mod 16 * 4), 61]"
| "base64 (a # b # c # rest) =
     b64 (a div 4) # b64 (a mod 4 * 16 + b div 16) # b64 (b mod 16 * 4 + c div 64) #
     b64 (c mod 64) # base64 rest"

text \<open>\<open>btoa\<close> throws InvalidCharacterError when a code unit is above 0xFF.\<close>

definition btoa :: "jsstring \<Rightarrow> js_error + jsstring" where
  "btoa s = (if list_all (\<lambda>c. c \<le> 255) s then Inr (base64 s) else Inl InvalidCharacterError)"

section \<open>Data model\<close>

text \<open>
  The interfaces of the sync core. Field names are the source's, except where two
  interfaces share a name or the name is a HOL constant: \<open>SyncItem.id\<close> is \<open>itemId\<close>,
  \<open>SyncItem.type\<close> is \<open>itemType\<close>; \<open>ConflictItem.id\<close> is \<open>conflictId\<close> and
  \<open>ConflictItem.timestamp\<close> is \<open>detectedAt\<close>; \<open>DeviceState.conflicts\<close> is
  \<open>conflictCount\<close>; \<open>SyncFilter.type\<close> and \<open>SyncFilter.enabled\<close> are \<open>filterType\<close> and
  \<open>filterEnabled\<close>; \<open>SyncConfig.enabled\<close> is \<open>configEnabled\<close>. The unions of string
  literals (\<open>type\<close>, \<open>action\<close>, \<open>strategy\<close>, \<open>provider\<close>, \<open>conflictStrategy\<close>) are
  strings, as they are when the code runs: nothing in it checks them.
\<close>

record SyncItem =
  itemId :: string
  itemType :: string
  action :: string
  data :: json
  timestamp :: int
  deviceId :: string
  userId :: "string option"
  version :: int
  checksum :: jsstring
  priority :: int

text \<open>The argument of \<open>syncItem\<close>:
  \<open>Omit<SyncItem, 'id' | 'timestamp' | 'version' | 'checksum'>\<close>.\<close>

record SyncItemInput =
  inType :: string
  inAction :: string
  inData :: json
  inDeviceId :: string
  inUserId :: "string option"
  inPriority :: int

record ConflictItem =
  conflictId :: string
  local :: SyncItem
  remote :: SyncItem
  strategy :: string
  resolved :: bool
  resolution :: "SyncItem option"
  detectedAt :: int

record DeviceState =
  lastSeen :: int
  syncVersion :: int
  pendingAcks :: "string list"
  conflictCount :: int

record SyncState =
  lastSync :: int
  pendingItems :: "SyncItem list"
  conflicts :: "ConflictItem list"
  deviceStates :: "(string \<times> DeviceState) list"
  syncProvider :: string
  enabled :: bool
  isOnline :: bool
  isSyncing :: bool

record SyncFilter =
  filterType :: string
  filterEnabled :: bool
  maxSize :: "int option"
  excludePatterns :: "jsstring list option"
  includePatterns :: "jsstring list option"

record SyncConfig =
  configEnabled :: bool
  provider :: string
  autoSync :: bool
  syncInterval :: int
  maxHistoryItems :: int
  encryptionEnabled :: bool
  conflictStrategy :: string
  filters :: "SyncFilter list"

text \<open>
  The fields of \<open>SyncCore\<close> that the operations below read: the configuration, and the
  two services the constructor builds from it (\<open>new ConflictResolver(conflictStrategy)\<close>,
  \<open>new EncryptionService(encryptionEnabled)\<close>), each holding the value it was built with.
\<close>

record SyncCore =
  config :: SyncConfig
  conflictResolver :: string
  encryption :: bool

definition newSyncCore :: "SyncConfig \<Rightarrow> SyncCore" where
  "newSyncCore cfg =
     \<lparr>config = cfg, conflictResolver = conflictStrategy cfg, encryption = encryptionEnabled cfg\<rparr>"

subsection \<open>Events\<close>

datatype error_subject = NoSubject | ItemSubject SyncItem | InputSubject SyncItemInput

text \<open>\<open>ErrorEvent t e s\<close> is \<open>emit('error', {type: t, error: e, item: s})\<close>;
  \<open>SyncCompleted n m\<close> is \<open>emit('sync_completed', {synced: n, pending: m})\<close>.\<close>

datatype event =
    SyncStarted
  | ItemQueued SyncItem
  | ItemSynced SyncItem
  | SyncCompleted nat nat
  | ConflictResolved ConflictItem
  | ErrorEvent string js_error error_subject

subsection \<open>Platform adapters\<close>

text \<open>
  \<open>StorageAdapter\<close> and \<open>SyncProvider\<close> are interfaces: the platform supplies them. An
  adapter is a state machine over a state of its own; each call returns a promise, which
  resolves or rejects (\<open>Some e\<close>, \<open>Inl e\<close>). \<open>storageSet\<close> is
  \<open>storage.set('sync_state', state)\<close>, \<open>getItems t i\<close> is \<open>storage.getItems({type: t, id: i})\<close>.
\<close>

record 's StorageAdapter =
  storageSet :: "SyncState \<Rightarrow> 's \<Rightarrow> js_error option \<times> 's"
  getItems :: "string \<Rightarrow> string \<Rightarrow> 's \<Rightarrow> js_error + SyncItem list"
  setItem :: "string \<Rightarrow> string \<Rightarrow> json \<Rightarrow> 's \<Rightarrow> js_error option \<times> 's"
  deleteItem :: "string \<Rightarrow> string \<Rightarrow> 's \<Rightarrow> js_error option \<times> 's"

text \<open>\<open>SyncProvider.syncItem\<close>, the one provider operation the outbox uses.\<close>

type_synonym 'p SyncProvider = "SyncItem \<Rightarrow> 'p \<Rightarrow> js_error option \<times> 'p"

record ('s, 'p) Platform =
  storage :: "'s StorageAdapter"
  providers :: "string \<Rightarrow> 'p SyncProvider option"

text \<open>
  What an operation changes: the engine state, the adapters' states, and two logs that
  only grow: the events emitted, and the calls of \<open>provider.syncItem\<close>, each with the
  item passed and the outcome (\<open>None\<close> when the call resolved, the error when it
  rejected).
\<close>

record ('s, 'p) world =
  state :: SyncState
  store :: 's
  net :: 'p
  emitted :: "event list"
  attempts :: "(SyncItem \<times> js_error option) list"

text \<open>The readings of \<open>Date.now()\<close> and \<open>Math.random()\<close> one operation takes:
  \<open>idTime\<close> and \<open>idRandom\<close> inside \<open>generateId\<close> (\<open>idRandom\<close> is
  \<open>Math.random().toString(36).substr(2, 9)\<close>), \<open>stampTime\<close> for the timestamp
  field, \<open>flushTime\<close> for \<open>lastSync\<close>.\<close>

record readings =
  idTime :: int
  idRandom :: string
  stampTime :: int
  flushTime :: int

section \<open>Utility classes\<close>

subsection \<open>EncryptionService\<close>

text \<open>
  \<open>encrypt\<close> returns \<open>data\<close> when the service is disabled and
  \<open>btoa(JSON.stringify(data))\<close> otherwise.
\<close>

definition encrypt :: "bool \<Rightarrow> json \<Rightarrow> js_error + json" where
  "encrypt isEnabled d =
     (if \<not> isEnabled then Inr d
      else (case btoa (JSON_stringify d) of Inl e \<Rightarrow> Inl e | Inr s \<Rightarrow> Inr (JStr s)))"

text \<open>
  \<open>decrypt\<close> returns \<open>data\<close> when the service is disabled; otherwise
  \<open>JSON.parse(atob(data))\<close>, and \<open>data\<close> when either call throws. \<open>atob\<close> converts
  its argument to a string first (\<open>ToString\<close>). The two decoders \<open>atob\<close> and
  \<open>JSON.parse\<close> are functions of the JavaScript engine, taken as parameters.
\<close>

record decoders =
  atob :: "jsstring \<Rightarrow> js_error + jsstring"
  JSON_parse :: "jsstring \<Rightarrow> js_error + json"

fun ToString :: "json \<Rightarrow> jsstring" where
  "ToString JNull = ascii ''null''"
| "ToString (JBool b) = (if b then ascii ''true'' else ascii ''false'')"
| "ToString (JNum i) = ascii (showInt i)"
| "ToString (JStr s) = s"
| "ToString (JArr xs) = joinComma (map (\<lambda>x. if x = JNull then [] else ToString x) xs)"
| "ToString (JObj kvs) = ascii ''[object Object]''"

definition decrypt :: "decoders \<Rightarrow> bool \<Rightarrow> json \<Rightarrow> json" where
  "decrypt js isEnabled d =
     (if \<not> isEnabled then d
      else (case atob js (ToString d) of
              Inl e \<Rightarrow> d
            | Inr s \<Rightarrow> (case JSON_parse js s of Inl e \<Rightarrow> d | Inr v \<Rightarrow> v)))"

text \<open>\<open>decrypt(encrypt(payload))\<close>, with the error \<open>encrypt\<close> throws, if any.\<close>

definition roundTrip :: "decoders \<Rightarrow> bool \<Rightarrow> json \<Rightarrow> js_error + json" where
  "roundTrip js isEnabled d =
     (case encrypt isEnabled d of Inl e \<Rightarrow> Inl e | Inr c \<Rightarrow> Inr (decrypt js isEnabled c))"

subsection \<open>ConflictResolver\<close>

text \<open>
  \<open>typeof x === 'object'\<close> holds of objects, arrays and \<open>null\<close>. The spread
  \<open>{...remote.data, ...local.data}\<close> lists the own properties of the first, then those of
  the second: a key of both keeps its place and takes the second's value. (JavaScript
  moves integer-like keys to the front; the association list does not.)
\<close>

definition typeofObject :: "json \<Rightarrow> bool" where
  "typeofObject d = (case d of JNull \<Rightarrow> True | JArr xs \<Rightarrow> True | JObj kvs \<Rightarrow> True | _ \<Rightarrow> False)"

definition ownProperties :: "json \<Rightarrow> (jsstring \<times> json) list" where
  "ownProperties d =
     (case d of
        JObj kvs \<Rightarrow> kvs
      | JArr xs \<Rightarrow> zip (map (\<lambda>i. ascii (showNat i)) [0..<length xs]) xs
      | _ \<Rightarrow> [])"

fun assign :: "(jsstring \<times> json) list \<Rightarrow> jsstring \<times> json \<Rightarrow> (jsstring \<times> json) list" where
  "assign [] kv = [kv]"
| "assign (p # ps) kv = (if fst p = fst kv then kv # ps else p # assign ps kv)"

definition spread :: "json \<Rightarrow> json \<Rightarrow> json" where
  "spread a b = JObj (foldl assign (foldl assign [] (ownProperties a)) (ownProperties b))"

definition attemptMerge :: "SyncItem \<Rightarrow> SyncItem \<Rightarrow> SyncItem" where
  "attemptMerge l r =
     (if typeofObject (data l) \<and> typeofObject (data r) then
        l\<lparr>data := spread (data r) (data l), timestamp := max (timestamp l) (timestamp r)\<rparr>
      else if timestamp l > timestamp r then l else r)"

definition resolve :: "string \<Rightarrow> SyncItem \<Rightarrow> SyncItem \<Rightarrow> SyncItem" where
  "resolve strat l r =
     (if strat = ''last_writer_wins'' then (if timestamp l > timestamp r then l else r)
      else if strat = ''device_priority'' then l
      else if strat = ''merge'' then attemptMerge l r
      else l)"

section \<open>SyncCore\<close>

definition emit :: "event \<Rightarrow> ('s, 'p) world \<Rightarrow> ('s, 'p) world" where
  "emit ev w = w\<lparr>emitted := emitted w @ [ev]\<rparr>"

definition generateId :: "int \<Rightarrow> string \<Rightarrow> string" where
  "generateId now rnd = showInt now @ ''-'' @ rnd"

text \<open>\<open>btoa(JSON.stringify(data)).slice(0, 16)\<close>\<close>

definition calculateChecksum :: "json \<Rightarrow> js_error + jsstring" where
  "calculateChecksum d =
     (case btoa (JSON_stringify d) of Inl e \<Rightarrow> Inl e | Inr s \<Rightarrow> Inr (take 16 s))"

definition shouldRetry :: "SyncItem \<Rightarrow> bool" where
  "shouldRetry item = (version item < 3)"

text \<open>\<open>content.includes(pattern)\<close>\<close>

definition stringIncludes :: "jsstring \<Rightarrow> jsstring \<Rightarrow> bool" where
  "stringIncludes content pattern =
     list_ex (\<lambda>i. take (length pattern) (drop i content) = pattern) [0..<Suc (length content)]"

definition shouldSync :: "SyncCore \<Rightarrow> SyncItem \<Rightarrow> bool" where
  "shouldSync core item =
     (case find (\<lambda>f. filterType f = itemType item) (filters (config core)) of
        None \<Rightarrow> False
      | Some f \<Rightarrow>
          if \<not> filterEnabled f then False
          else if (case maxSize f of
                     None \<Rightarrow> False
                   | Some m \<Rightarrow> m \<noteq> 0 \<and> int (length (JSON_stringify (data item))) > m)
          then False
          else if (case excludePatterns f of
                     None \<Rightarrow> False
                   | Some ps \<Rightarrow> list_ex (stringIncludes (JSON_stringify (data item))) ps)
          then False
          else if (case includePatterns f of
                     None \<Rightarrow> False
                   | Some ps \<Rightarrow> \<not> list_ex (stringIncludes (JSON_stringify (data item))) ps)
          then False
          else True)"

text \<open>\<open>saveState\<close> catches the rejection of \<open>storage.set\<close> and emits an error.\<close>

definition saveState :: "('s, 'p) Platform \<Rightarrow> ('s, 'p) world \<Rightarrow> ('s, 'p) world" where
  "saveState P w =
     (case storageSet (storage P) (state w) (store w) of
        (None, s') \<Rightarrow> w\<lparr>store := s'\<rparr>
      | (Some e, s') \<Rightarrow> emit (ErrorEvent ''save_state'' e NoSubject) (w\<lparr>store := s'\<rparr>))"

definition applyChange ::
  "('s, 'p) Platform \<Rightarrow> SyncItem \<Rightarrow> ('s, 'p) world \<Rightarrow> js_error option \<times> ('s, 'p) world" where
  "applyChange P item w =
     (if action item = ''create'' \<or> action item = ''update'' then
        (case setItem (storage P) (itemType item) (itemId item) (data item) (store w) of
           (r, s') \<Rightarrow> (r, w\<lparr>store := s'\<rparr>))
      else if action item = ''delete'' then
        (case deleteItem (storage P) (itemType item) (itemId item) (store w) of
           (r, s') \<Rightarrow> (r, w\<lparr>store := s'\<rparr>))
      else (None, w))"

subsection \<open>The outbox: processPendingItems\<close>

text \<open>
  \<open>Array.prototype.sort\<close> is stable, and so is \<open>sort_key\<close>; the comparator orders by
  priority, then by timestamp.
\<close>

definition sortPending :: "SyncItem list \<Rightarrow> SyncItem list" where
  "sortPending xs = sort_key (\<lambda>i. (priority i, timestamp i)) xs"

text \<open>
  The body of the \<open>for\<close> loop, on the array elements visited so far (as the loop leaves
  them: \<open>item.version++\<close> changes the element in place), \<open>successfulItems\<close>, and the
  world.
\<close>

type_synonym ('s, 'p) flush = "SyncItem list \<times> string list \<times> ('s, 'p) world"

definition attemptItem :: "'p SyncProvider \<Rightarrow> ('s, 'p) flush \<Rightarrow> SyncItem \<Rightarrow> ('s, 'p) flush" where
  "attemptItem push acc item =
     (case acc of (visited, successfulItems, w) \<Rightarrow>
        (case push item (net w) of
           (None, p') \<Rightarrow>
             (visited @ [item], successfulItems @ [itemId item],
              emit (ItemSynced item) (w\<lparr>net := p', attempts := attempts w @ [(item, None)]\<rparr>))
         | (Some e, p') \<Rightarrow>
             (if shouldRetry item then
                (visited @ [item\<lparr>version := version item + 1\<rparr>], successfulItems,
                 emit (ErrorEvent ''item_sync'' e (ItemSubject item))
                   (w\<lparr>net := p', attempts := attempts w @ [(item, Some e)]\<rparr>))
              else
                (visited @ [item], successfulItems @ [itemId item],
                 emit (ErrorEvent ''item_sync'' e (ItemSubject item))
                   (w\<lparr>net := p', attempts := attempts w @ [(item, Some e)]\<rparr>)))))"

definition deliverAll ::
  "'p SyncProvider \<Rightarrow> SyncItem list \<Rightarrow> ('s, 'p) world \<Rightarrow> ('s, 'p) flush" where
  "deliverAll push items w = foldl (attemptItem push) ([], [], w) items"

definition finishSync :: "('s, 'p) world \<Rightarrow> ('s, 'p) world" where
  "finishSync w = w\<lparr>state := (state w)\<lparr>isSyncing := False\<rparr>\<rparr>"

definition processPendingItems ::
  "('s, 'p) Platform \<Rightarrow> SyncCore \<Rightarrow> int \<Rightarrow> ('s, 'p) world \<Rightarrow> ('s, 'p) world" where
  "processPendingItems P core now w =
     (if isSyncing (state w) \<or> pendingItems (state w) = [] then w
      else
        (case providers P (provider (config core)) of
           None \<Rightarrow>
             finishSync
               (emit (ErrorEvent ''sync_process''
                        (Error (''Provider not found: '' @ provider (config core))) NoSubject)
                  (emit SyncStarted (w\<lparr>state := (state w)\<lparr>isSyncing := True\<rparr>\<rparr>)))
         | Some push \<Rightarrow>
             (case deliverAll push (sortPending (pendingItems (state w)))
                     (emit SyncStarted (w\<lparr>state := (state w)\<lparr>isSyncing := True\<rparr>\<rparr>)) of
                (visited, successfulItems, w') \<Rightarrow>
                  finishSync
                    (emit (SyncCompleted (length successfulItems)
                             (length (filter (\<lambda>i. itemId i \<notin> set successfulItems) visited)))
                       (saveState P
                          (w'\<lparr>state := (state w')
                               \<lparr>pendingItems := filter (\<lambda>i. itemId i \<notin> set successfulItems) visited,
                                lastSync := now\<rparr>\<rparr>))))))"

text \<open>The callback \<open>initialize\<close> registers with \<open>network.onConnectionChange\<close>.\<close>

definition onConnectionChange ::
  "('s, 'p) Platform \<Rightarrow> SyncCore \<Rightarrow> int \<Rightarrow> bool \<Rightarrow> ('s, 'p) world \<Rightarrow> ('s, 'p) world" where
  "onConnectionChange P core now online w =
     (if online then processPendingItems P core now (w\<lparr>state := (state w)\<lparr>isOnline := online\<rparr>\<rparr>)
      else w\<lparr>state := (state w)\<lparr>isOnline := online\<rparr>\<rparr>)"

text \<open>
  The callback of the timer \<open>startPeriodicSync\<close> sets: when the engine is online and not
  syncing it awaits \<open>processPendingItems\<close> and then \<open>pullChanges\<close>, and otherwise does
  nothing. \<open>pullChanges\<close> is not unfolded here: \<open>pull\<close> is whatever it does to the
  world, and the statements about this callback hold for every \<open>pull\<close>.
\<close>

definition periodicSync ::
  "('s, 'p) Platform \<Rightarrow> SyncCore \<Rightarrow> int \<Rightarrow> (('s, 'p) world \<Rightarrow> ('s, 'p) world) \<Rightarrow>
     ('s, 'p) world \<Rightarrow> ('s, 'p) world" where
  "periodicSync P core now pull w =
     (if isOnline (state w) \<and> \<not> isSyncing (state w)
      then pull (processPendingItems P core now w) else w)"

subsection \<open>syncItem\<close>

text \<open>The object literal that \<open>syncItem\<close> builds; \<open>item.priority || 1\<close> replaces a
  priority of 0.\<close>

definition newSyncItem :: "readings \<Rightarrow> SyncItemInput \<Rightarrow> jsstring \<Rightarrow> SyncItem" where
  "newSyncItem env inp c =
     \<lparr>itemId = generateId (idTime env) (idRandom env),
      itemType = inType inp,
      action = inAction inp,
      data = inData inp,
      timestamp = stampTime env,
      deviceId = inDeviceId inp,
      userId = inUserId inp,
      version = 1,
      checksum = c,
      priority = (if inPriority inp = 0 then 1 else inPriority inp)\<rparr>"

text \<open>
  \<open>syncItem\<close> returns the error it throws, if any, with the world it leaves. The
  \<open>item_queued\<close> event is recorded with the item as it was pushed to \<open>pendingItems\<close>;
  a flush in between that failed to deliver it has incremented the version of that
  object, and no statement below reads the version from the event.
\<close>

definition syncItem ::
  "('s, 'p) Platform \<Rightarrow> SyncCore \<Rightarrow> readings \<Rightarrow> SyncItemInput \<Rightarrow> ('s, 'p) world \<Rightarrow>
     js_error option \<times> ('s, 'p) world" where
  "syncItem P core env inp w =
     (case calculateChecksum (inData inp) of
        Inl e \<Rightarrow> (Some e, emit (ErrorEvent ''sync_item'' e (InputSubject inp)) w)
      | Inr c \<Rightarrow>
          (if \<not> shouldSync core (newSyncItem env inp c) then (None, w)
           else
             (case (if encryptionEnabled (config core) then encrypt (encryption core) (inData inp)
                    else Inr (inData inp)) of
                Inl e \<Rightarrow> (Some e, emit (ErrorEvent ''sync_item'' e (InputSubject inp)) w)
              | Inr d \<Rightarrow>
                  (let queued = (newSyncItem env inp c)\<lparr>data := d\<rparr>;
                       w1 = saveState P
                              (w\<lparr>state := (state w)
                                   \<lparr>pendingItems := pendingItems (state w) @ [queued]\<rparr>\<rparr>);
                       w2 = (if isOnline (state w1) \<and> \<not> isSyncing (state w1)
                             then processPendingItems P core (flushTime env) w1 else w1)
                   in (None, emit (ItemQueued queued) w2)))))"

subsection \<open>Conflicts\<close>

definition detectConflict ::
  "('s, 'p) Platform \<Rightarrow> SyncCore \<Rightarrow> readings \<Rightarrow> SyncItem \<Rightarrow> ('s, 'p) world \<Rightarrow>
     js_error + ConflictItem option" where
  "detectConflict P core env remoteItem w =
     (case getItems (storage P) (itemType remoteItem) (itemId remoteItem) (store w) of
        Inl e \<Rightarrow> Inl e
      | Inr existingItems \<Rightarrow>
          (case find (\<lambda>localItem. checksum localItem \<noteq> checksum remoteItem \<and>
                         \<bar>timestamp localItem - timestamp remoteItem\<bar> < 5000) existingItems of
             None \<Rightarrow> Inr None
           | Some localItem \<Rightarrow>
               Inr (Some \<lparr>conflictId = generateId (idTime env) (idRandom env),
                          local = localItem,
                          remote = remoteItem,
                          strategy = (if conflictStrategy (config core) = ''user_choice''
                                      then ''manual'' else ''auto''),
                          resolved = False,
                          resolution = None,
                          detectedAt = stampTime env\<rparr>)))"



section \<open>The outcomes of a flush\<close>

text \<open>
  Notions for stating what the delivery loop does. \<open>pushAll\<close> is the sequence of
  \<open>provider.syncItem\<close> calls on a list of items, in order, with the outcome of each.
  For one such call, \<open>outcomeEvent\<close> is the event the loop emits, \<open>afterAttempt\<close> is
  the array element as the loop leaves it, and \<open>leavesOutbox\<close> says whether the loop
  puts the item's id in \<open>successfulItems\<close>.
\<close>

fun pushAll ::
  "'p SyncProvider \<Rightarrow> SyncItem list \<Rightarrow> 'p \<Rightarrow> (SyncItem \<times> js_error option) list \<times> 'p" where
  "pushAll push [] p = ([], p)"
| "pushAll push (x # xs) p =
     (case push x p of (r, p') \<Rightarrow>
        (case pushAll push xs p' of (A, p'') \<Rightarrow> ((x, r) # A, p'')))"

definition outcomeEvent :: "SyncItem \<times> js_error option \<Rightarrow> event" where
  "outcomeEvent a =
     (case snd a of
        None \<Rightarrow> ItemSynced (fst a)
      | Some e \<Rightarrow> ErrorEvent ''item_sync'' e (ItemSubject (fst a)))"

definition afterAttempt :: "SyncItem \<times> js_error option \<Rightarrow> SyncItem" where
  "afterAttempt a =
     (if snd a \<noteq> None \<and> shouldRetry (fst a) then (fst a)\<lparr>version := version (fst a) + 1\<rparr>
      else fst a)"

definition leavesOutbox :: "SyncItem \<times> js_error option \<Rightarrow> bool" where
  "leavesOutbox a = (snd a = None \<or> \<not> shouldRetry (fst a))"

text \<open>The error events of type \<open>item_sync\<close>.\<close>

definition isItemSyncError :: "event \<Rightarrow> bool" where
  "isItemSyncError ev = (case ev of ErrorEvent t e s \<Rightarrow> t = ''item_sync'' | _ \<Rightarrow> False)"

definition flushOutcomes ::
  "('s, 'p) Platform \<Rightarrow> SyncCore \<Rightarrow> ('s, 'p) world \<Rightarrow> (SyncItem \<times> js_error option) list" where
  "flushOutcomes P core w =
     (case providers P (provider (config core)) of
        None \<Rightarrow> []
      | Some push \<Rightarrow> fst (pushAll push (sortPending (pendingItems (state w))) (net w)))"

text \<open>Several flush cycles in a row, one per reading of the clock.\<close>

definition repeatFlush ::
  "('s, 'p) Platform \<Rightarrow> SyncCore \<Rightarrow> int list \<Rightarrow> ('s, 'p) world \<Rightarrow> ('s, 'p) world" where
  "repeatFlush P core ts w = foldl (\<lambda>w' t. processPendingItems P core t w') w ts"

section \<open>An example platform\<close>

text \<open>
  A storage adapter in memory, for evaluating the operations on concrete inputs: it
  serves \<open>getItems\<close> from a list of stored items, matching type and id, and logs the
  writes it receives; none of its calls rejects.
\<close>

datatype storage_call = StateSaved | ItemSet string string json | ItemDeleted string string

record memStore =
  stored :: "SyncItem list"
  calls :: "storage_call list"

definition memStorage :: "memStore StorageAdapter" where
  "memStorage =
     \<lparr>storageSet = (\<lambda>st s. (None, s\<lparr>calls := calls s @ [StateSaved]\<rparr>)),
      getItems = (\<lambda>t i s. Inr (filter (\<lambda>x. itemType x = t \<and> itemId x = i) (stored s))),
      setItem = (\<lambda>t i d s. (None, s\<lparr>calls := calls s @ [ItemSet t i d]\<rparr>)),
      deleteItem = (\<lambda>t i s. (None, s\<lparr>calls := calls s @ [ItemDeleted t i]\<rparr>))\<rparr>"

text \<open>Two providers: one resolves every push, one rejects every push. Their state
  counts the calls.\<close>

definition acceptingProvider :: "nat SyncProvider" where
  "acceptingProvider item n = (None, Suc n)"

definition rejectingProvider :: "nat SyncProvider" where
  "rejectingProvider item n = (Some (Rejected ''unreachable''), Suc n)"

text \<open>A provider that resolves every push and keeps, as its state, the items it has
  received, in the order of the calls.\<close>

definition recordingProvider :: "SyncItem list SyncProvider" where
  "recordingProvider item received = (None, received @ [item])"

definition recordingPlatform :: "(memStore, SyncItem list) Platform" where
  "recordingPlatform =
     \<lparr>storage = memStorage,
      providers = (\<lambda>name. if name = ''cloud'' then Some recordingProvider else None)\<rparr>"

definition recordingWorld :: "SyncState \<Rightarrow> (memStore, SyncItem list) world" where
  "recordingWorld st =
     \<lparr>state = st, store = \<lparr>stored = [], calls = []\<rparr>, net = [], emitted = [], attempts = []\<rparr>"

definition demoPlatform :: "nat SyncProvider \<Rightarrow> (memStore, nat) Platform" where
  "demoPlatform push =
     \<lparr>storage = memStorage,
      providers = (\<lambda>name. if name = ''cloud'' then Some push else None)\<rparr>"

definition demoConfig :: "string \<Rightarrow> bool \<Rightarrow> SyncFilter list \<Rightarrow> SyncConfig" where
  "demoConfig strat enc fs =
     \<lparr>configEnabled = True, provider = ''cloud'', autoSync = False, syncInterval = 300,
      maxHistoryItems = 100, encryptionEnabled = enc, conflictStrategy = strat, filters = fs\<rparr>"

definition demoState :: "bool \<Rightarrow> SyncItem list \<Rightarrow> ConflictItem list \<Rightarrow> SyncState" where
  "demoState online pending cs =
     \<lparr>lastSync = 0, pendingItems = pending, conflicts = cs, deviceStates = [],
      syncProvider = ''cloud'', enabled = True, isOnline = online, isSyncing = False\<rparr>"

definition demoWorld :: "SyncState \<Rightarrow> SyncItem list \<Rightarrow> (memStore, nat) world" where
  "demoWorld st items =
     \<lparr>state = st, store = \<lparr>stored = items, calls = []\<rparr>, net = 0, emitted = [], attempts = []\<rparr>"

definition demoItem :: "string \<Rightarrow> string \<Rightarrow> jsstring \<Rightarrow> int \<Rightarrow> int \<Rightarrow> SyncItem" where
  "demoItem i dev text ts prio =
     \<lparr>itemId = i, itemType = ''clipboard'', action = ''update'', data = JStr text,
      timestamp = ts, deviceId = dev, userId = None, version = 1,
      checksum = take 16 (base64 (JSON_stringify (JStr text))), priority = prio\<rparr>"

definition plainCore :: SyncCore where
  "plainCore = newSyncCore (demoConfig ''last_writer_wins'' False [])"

text \<open>Scenario C: item \<open>x3\<close> alone in the outbox, online, every push rejected, four
  flush cycles.\<close>

definition itemX3 :: SyncItem where
  "itemX3 = demoItem ''x3'' ''phone'' (ascii ''hello'') 1000 1"

definition scenarioC :: "(memStore, nat) world" where
  "scenarioC =
     repeatFlush (demoPlatform rejectingProvider) plainCore [10, 20, 30, 40]
       (demoWorld (demoState True [itemX3] []) [])"



definition offlineOutbox :: "(memStore, nat) world" where
  "offlineOutbox = demoWorld (demoState False [itemX3] []) []"

definition busyOutbox :: "(memStore, nat) world" where
  "busyOutbox =
     (demoWorld (demoState True [itemX3] []) [])
       \<lparr>state := (demoState True [itemX3] [])\<lparr>isSyncing := True\<rparr>\<rparr>"

definition demoReadings :: readings where
  "demoReadings =
     \<lparr>idTime = 1700000000000, idRandom = ''k3j9x0q1z'', stampTime = 1700000000001,
      flushTime = 1700000000002\<rparr>"

definition clipboardFilter :: SyncFilter where
  "clipboardFilter =
     \<lparr>filterType = ''clipboard'', filterEnabled = True, maxSize = None,
      excludePatterns = None, includePatterns = None\<rparr>"

definition filteringCore :: SyncCore where
  "filteringCore = newSyncCore (demoConfig ''last_writer_wins'' False [clipboardFilter])"

definition helloInput :: SyncItemInput where
  "helloInput =
     \<lparr>inType = ''clipboard'', inAction = ''create'', inData = JStr (ascii ''hello''),
      inDeviceId = ''phone'', inUserId = None, inPriority = 1\<rparr>"

text \<open>Fixtures for conflicts: a local item, a remote item with the same id, another
  payload and a timestamp to choose, an unresolved conflict between the two, and the
  world after that conflict has been resolved once.\<close>

definition localA :: SyncItem where
  "localA = demoItem ''x2'' ''laptop'' (ascii ''A'') 1000 1"

definition remoteB :: "int \<Rightarrow> SyncItem" where
  "remoteB ts = demoItem ''x2'' ''phone'' (ascii ''B'') ts 1"

text \<open>The local item again, filed under another type.\<close>

definition settingsA :: SyncItem where
  "settingsA = localA\<lparr>itemType := ''settings''\<rparr>"




text \<open>Fixtures for \<open>syncItem\<close>: a payload outside Latin-1, a type and an action outside
  the interface's unions with a filter for that type, a core that encrypts, an empty
  offline world.\<close>

definition japaneseInput :: SyncItemInput where
  "japaneseInput =
     \<lparr>inType = ''clipboard'', inAction = ''create'', inData = JStr [26085, 26412, 35486],
      inDeviceId = ''phone'', inUserId = None, inPriority = 1\<rparr>"







section \<open>Unfolding the definitions on concrete inputs\<close>

lemmas demo_defs =
  demoWorld_def demoState_def demoPlatform_def demoConfig_def demoItem_def memStorage_def
  rejectingProvider_def acceptingProvider_def newSyncCore_def plainCore_def
  recordingProvider_def recordingPlatform_def recordingWorld_def

lemmas flush_defs =
  processPendingItems_def deliverAll_def attemptItem_def sortPending_def emit_def
  shouldRetry_def saveState_def finishSync_def

lemmas json_defs =
  ascii_def quoteJSONString_def isLeadingSurrogate_def isTrailingSurrogate_def escapeUnit_def
  unicodeEscape_def hexDigit_def showInt_def showNat.simps digitChar_def btoa_def b64_def
  base64Alphabet_def

lemmas sync_defs =
  syncItem_def calculateChecksum_def shouldSync_def newSyncItem_def generateId_def encrypt_def
  stringIncludes_def Let_def


section \<open>Conflict resolution strategies\<close>

text \<open>
  C4, as the code has it. Under the \<open>device_priority\<close> strategy \<open>resolve\<close> returns the
  local item for every pair of items: it reads neither a device rank nor a timestamp.
\<close>

theorem resolve_device_priority_keeps_local:
  "resolve ''device_priority'' l r = l"
  by (simp add: resolve_def)

text \<open>
  C4 as the specification states it fails: two items of one device (so of equal rank),
  the remote one written later; last-writer-wins would keep the remote item, and
  \<open>resolve\<close> keeps the local one.
\<close>

theorem resolve_device_priority_counterexample:
  "deviceId (demoItem ''x2'' ''phone'' (ascii ''A'') 1000 1)
     = deviceId (demoItem ''x2'' ''phone'' (ascii ''B'') 3000 1)
   \<and> timestamp (demoItem ''x2'' ''phone'' (ascii ''A'') 1000 1)
     < timestamp (demoItem ''x2'' ''phone'' (ascii ''B'') 3000 1)
   \<and> resolve ''device_priority'' (demoItem ''x2'' ''phone'' (ascii ''A'') 1000 1)
        (demoItem ''x2'' ''phone'' (ascii ''B'') 3000 1)
     \<noteq> demoItem ''x2'' ''phone'' (ascii ''B'') 3000 1"
  by (simp add: resolve_def demoItem_def)

section \<open>The delivery loop\<close>

lemma emit_fields [simp]:
  "state (emit ev w) = state w" "attempts (emit ev w) = attempts w" "net (emit ev w) = net w"
  "store (emit ev w) = store w"
  by (simp_all add: emit_def)

lemma pushAll_items: "map fst (fst (pushAll push xs p)) = xs"
proof (induction xs arbitrary: p)
  case Nil
  show ?case by simp
next
  case (Cons x xs)
  obtain r p' where px: "push x p = (r, p')" by (cases "push x p")
  obtain A p'' where pa: "pushAll push xs p' = (A, p'')" by (cases "pushAll push xs p'")
  from Cons.IH[of p'] pa have "map fst A = xs" by simp
  with px pa show ?case by simp
qed

lemma foldl_attemptItem:
  "foldl (attemptItem push) (vis, suc, w) xs =
     (vis @ map afterAttempt (fst (pushAll push xs (net w))),
      suc @ map (itemId \<circ> fst) (filter leavesOutbox (fst (pushAll push xs (net w)))),
      w\<lparr>net := snd (pushAll push xs (net w)),
        emitted := emitted w @ map outcomeEvent (fst (pushAll push xs (net w))),
        attempts := attempts w @ fst (pushAll push xs (net w))\<rparr>)"
proof (induction xs arbitrary: vis suc w)
  case Nil
  then show ?case by simp
next
  case (Cons x xs)
  obtain r p' where px: "push x (net w) = (r, p')" by (cases "push x (net w)")
  obtain A p'' where pa: "pushAll push xs p' = (A, p'')" by (cases "pushAll push xs p'")
  show ?case
  proof (cases r)
    case None
    have step: "attemptItem push (vis, suc, w) x =
        (vis @ [x], suc @ [itemId x],
         emit (ItemSynced x) (w\<lparr>net := p', attempts := attempts w @ [(x, None)]\<rparr>))"
      using px None by (simp add: attemptItem_def)
    show ?thesis
      using px pa None
      by (simp add: step Cons.IH emit_def afterAttempt_def leavesOutbox_def outcomeEvent_def)
  next
    case (Some e)
    have step: "attemptItem push (vis, suc, w) x =
        (vis @ [afterAttempt (x, r)],
         suc @ map (itemId \<circ> fst) (filter leavesOutbox [(x, r)]),
         emit (outcomeEvent (x, r)) (w\<lparr>net := p', attempts := attempts w @ [(x, r)]\<rparr>))"
      using px Some
      by (simp add: attemptItem_def afterAttempt_def leavesOutbox_def outcomeEvent_def)
    show ?thesis
      using px pa Some
      by (simp add: step Cons.IH emit_def)
  qed
qed

lemma saveState_state [simp]: "state (saveState P w) = state w"
  by (simp add: saveState_def emit_def split: prod.splits option.splits)

lemma saveState_attempts [simp]: "attempts (saveState P w) = attempts w"
  by (simp add: saveState_def emit_def split: prod.splits option.splits)

lemma saveState_net [simp]: "net (saveState P w) = net w"
  by (simp add: saveState_def emit_def split: prod.splits option.splits)

lemma saveState_emitted:
  "\<exists>evs. emitted (saveState P w) = emitted w @ evs \<and> filter isItemSyncError evs = []"
  by (simp add: saveState_def emit_def isItemSyncError_def split: prod.splits option.splits)

lemma outcomeEvent_errors:
  "filter isItemSyncError (map outcomeEvent A)
     = map outcomeEvent (filter (\<lambda>a. snd a \<noteq> None) A)"
  by (induction A) (auto simp: outcomeEvent_def isItemSyncError_def split: option.splits)

lemma deliverAll_eq:
  "deliverAll push xs w =
     (map afterAttempt (fst (pushAll push xs (net w))),
      map (itemId \<circ> fst) (filter leavesOutbox (fst (pushAll push xs (net w)))),
      w\<lparr>net := snd (pushAll push xs (net w)),
        emitted := emitted w @ map outcomeEvent (fst (pushAll push xs (net w))),
        attempts := attempts w @ fst (pushAll push xs (net w))\<rparr>)"
  unfolding deliverAll_def by (simp add: foldl_attemptItem)

lemma processPendingItems_open:
  assumes "\<not> isSyncing (state w)" and "pendingItems (state w) \<noteq> []"
    and "providers P (provider (config core)) = Some push"
  shows "attempts (processPendingItems P core now w) = attempts w @ flushOutcomes P core w"
    and "pendingItems (state (processPendingItems P core now w)) =
           filter (\<lambda>i. itemId i \<notin> itemId ` fst ` set (filter leavesOutbox (flushOutcomes P core w)))
             (map afterAttempt (flushOutcomes P core w))"
    and "\<exists>evs. emitted (processPendingItems P core now w) =
           emitted w @ SyncStarted # map outcomeEvent (flushOutcomes P core w) @ evs
           \<and> filter isItemSyncError evs = []"
    and "lastSync (state (processPendingItems P core now w)) = now"
    and "net (processPendingItems P core now w)
           = snd (pushAll push (sortPending (pendingItems (state w))) (net w))"
proof -
  let ?A = "flushOutcomes P core w"
  let ?w1 = "emit SyncStarted (w\<lparr>state := (state w)\<lparr>isSyncing := True\<rparr>\<rparr>)"
  let ?vis = "map afterAttempt ?A"
  let ?suc = "map (itemId \<circ> fst) (filter leavesOutbox ?A)"
  let ?rest = "filter (\<lambda>i. itemId i \<notin> set ?suc) ?vis"
  obtain w2 where loop: "deliverAll push (sortPending (pendingItems (state w))) ?w1 = (?vis, ?suc, w2)"
    and w2: "state w2 = state ?w1" "attempts w2 = attempts w @ ?A"
      "emitted w2 = emitted w @ SyncStarted # map outcomeEvent ?A"
      "net w2 = snd (pushAll push (sortPending (pendingItems (state w))) (net w))"
    using assms(3) by (simp add: deliverAll_eq flushOutcomes_def emit_def)
  let ?w3 = "w2\<lparr>state := (state w2)\<lparr>pendingItems := ?rest, lastSync := now\<rparr>\<rparr>"
  have res: "processPendingItems P core now w =
      finishSync (emit (SyncCompleted (length ?suc) (length ?rest)) (saveState P ?w3))"
    using assms loop by (simp add: processPendingItems_def)
  show "attempts (processPendingItems P core now w) = attempts w @ ?A"
    by (simp add: res finishSync_def w2)
  show "pendingItems (state (processPendingItems P core now w)) =
           filter (\<lambda>i. itemId i \<notin> itemId ` fst ` set (filter leavesOutbox ?A)) ?vis"
    by (simp add: res finishSync_def image_image)
  show "lastSync (state (processPendingItems P core now w)) = now"
    by (simp add: res finishSync_def)
  show "net (processPendingItems P core now w)
           = snd (pushAll push (sortPending (pendingItems (state w))) (net w))"
    by (simp add: res finishSync_def w2)
  obtain evs where evs: "emitted (saveState P ?w3) = emitted ?w3 @ evs"
    and quiet: "filter isItemSyncError evs = []"
    using saveState_emitted by blast
  have e3: "emitted ?w3 = emitted w @ SyncStarted # map outcomeEvent ?A"
    by (simp add: w2)
  have "emitted (processPendingItems P core now w) =
      emitted (saveState P ?w3) @ [SyncCompleted (length ?suc) (length ?rest)]"
    by (simp add: res finishSync_def emit_def)
  then have "emitted (processPendingItems P core now w) =
      emitted w @ SyncStarted # map outcomeEvent ?A
        @ (evs @ [SyncCompleted (length ?suc) (length ?rest)])"
    unfolding evs e3 by simp
  moreover have "filter isItemSyncError (evs @ [SyncCompleted (length ?suc) (length ?rest)]) = []"
    using quiet by (simp add: isItemSyncError_def)
  ultimately show "\<exists>evs. emitted (processPendingItems P core now w) =
           emitted w @ SyncStarted # map outcomeEvent ?A @ evs
           \<and> filter isItemSyncError evs = []"
    by blast
qed

lemma flushOutcomes_items:
  assumes "providers P (provider (config core)) = Some push"
  shows "map fst (flushOutcomes P core w) = sortPending (pendingItems (state w))"
  using assms by (simp add: flushOutcomes_def pushAll_items)

lemma sortPending_mset: "mset (sortPending xs) = mset xs"
  by (simp add: sortPending_def)


subsection \<open>Order of delivery\<close>



subsection \<open>Failed deliveries\<close>

text \<open>
  C3, as the code has it. In a flush cycle over an outbox with distinct ids, every
  rejected push emits an error event of type \<open>item_sync\<close> carrying the item, also when
  the item is kept, and the cycle emits as many such events as pushes were rejected;
  then the item stays pending with its version incremented when \<open>shouldRetry\<close> holds of
  it, and no item with its id stays pending otherwise.
\<close>

theorem failed_delivery_retry_or_drop:
  assumes "\<not> isSyncing (state w)" and "pendingItems (state w) \<noteq> []"
    and "providers P (provider (config core)) = Some push"
    and "distinct (map itemId (pendingItems (state w)))"
    and "(item, Some e)
           \<in> set (drop (length (attempts w)) (attempts (processPendingItems P core now w)))"
  shows "ErrorEvent ''item_sync'' e (ItemSubject item)
           \<in> set (drop (length (emitted w)) (emitted (processPendingItems P core now w)))
         \<and> length (filter isItemSyncError
                     (drop (length (emitted w)) (emitted (processPendingItems P core now w))))
             = length (filter (\<lambda>a. snd a \<noteq> None)
                         (drop (length (attempts w)) (attempts (processPendingItems P core now w))))
         \<and> (if shouldRetry item
            then item\<lparr>version := version item + 1\<rparr>
                   \<in> set (pendingItems (state (processPendingItems P core now w)))
            else itemId item
                   \<notin> itemId ` set (pendingItems (state (processPendingItems P core now w))))"
proof -
  let ?A = "flushOutcomes P core w"
  let ?w' = "processPendingItems P core now w"
  have a: "attempts ?w' = attempts w @ ?A"
    using assms(1-3) by (rule processPendingItems_open(1))
  have mem: "(item, Some e) \<in> set ?A" using assms(5) by (simp add: a)
  obtain evs where ev: "emitted ?w' = emitted w @ SyncStarted # map outcomeEvent ?A @ evs"
    and quiet: "filter isItemSyncError evs = []"
    using processPendingItems_open(3)[OF assms(1-3)] by blast
  have cnt: "length (filter isItemSyncError (drop (length (emitted w)) (emitted ?w')))
      = length (filter (\<lambda>a. snd a \<noteq> None) (drop (length (attempts w)) (attempts ?w')))"
    by (simp add: ev a quiet outcomeEvent_errors isItemSyncError_def)
  have "outcomeEvent (item, Some e) \<in> set (map outcomeEvent ?A)" using mem by simp
  then have evt: "ErrorEvent ''item_sync'' e (ItemSubject item) \<in> set (drop (length (emitted w)) (emitted ?w'))"
    by (simp add: ev outcomeEvent_def)
  have pend: "pendingItems (state ?w') =
      filter (\<lambda>i. itemId i \<notin> itemId ` fst ` set (filter leavesOutbox ?A)) (map afterAttempt ?A)"
    using assms(1-3) by (rule processPendingItems_open(2))
  have items: "map fst ?A = sortPending (pendingItems (state w))"
    using assms(3) by (rule flushOutcomes_items)
  have "mset (map itemId (map fst ?A)) = mset (map itemId (pendingItems (state w)))"
    by (simp add: items sortPending_mset del: map_map)
  then have dist: "distinct (map (itemId \<circ> fst) ?A)"
    using assms(4) by (metis List.map.compositionality mset_eq_imp_distinct_iff)
  show ?thesis
  proof (cases "shouldRetry item")
    case True
    have "itemId item \<notin> itemId ` fst ` set (filter leavesOutbox ?A)"
    proof
      assume "itemId item \<in> itemId ` fst ` set (filter leavesOutbox ?A)"
      then obtain a where a: "a \<in> set ?A" "leavesOutbox a" "itemId (fst a) = itemId item" by auto
      have "inj_on (itemId \<circ> fst) (set ?A)" using dist by (simp add: distinct_map)
      moreover have "(itemId \<circ> fst) a = (itemId \<circ> fst) (item, Some e)" using a(3) by simp
      ultimately have "a = (item, Some e)" using a(1) mem by (rule inj_onD)
      with a(2) True show False by (simp add: leavesOutbox_def)
    qed
    moreover have "afterAttempt (item, Some e) \<in> set (map afterAttempt ?A)"
      using mem by simp
    ultimately have "item\<lparr>version := version item + 1\<rparr> \<in> set (pendingItems (state ?w'))"
      using True by (simp add: pend afterAttempt_def)
    with evt cnt True show ?thesis by simp
  next
    case False
    have "leavesOutbox (item, Some e)" using False by (simp add: leavesOutbox_def)
    with mem have gone: "itemId item \<in> itemId ` fst ` set (filter leavesOutbox ?A)" by force
    have "itemId item \<notin> itemId ` set (pendingItems (state ?w'))"
    proof
      assume "itemId item \<in> itemId ` set (pendingItems (state ?w'))"
      then obtain x where "x \<in> set (pendingItems (state ?w'))" and "itemId x = itemId item" by auto
      then have "itemId item \<notin> itemId ` fst ` set (filter leavesOutbox ?A)"
        unfolding pend by simp
      with gone show False by simp
    qed
    with evt cnt False show ?thesis by simp
  qed
qed

text \<open>
  The theorem at the first cycle of scenario C: the push of \<open>x3\<close> is rejected, the
  error event fires, and \<open>x3\<close> stays pending with version 2.
\<close>

theorem failed_delivery_retry_or_drop_witness:
  "\<not> isSyncing (state (demoWorld (demoState True [itemX3] []) []))
   \<and> pendingItems (state (demoWorld (demoState True [itemX3] []) [])) \<noteq> []
   \<and> providers (demoPlatform rejectingProvider) (provider (config plainCore)) = Some rejectingProvider
   \<and> distinct (map itemId (pendingItems (state (demoWorld (demoState True [itemX3] []) []))))
   \<and> (itemX3, Some (Rejected ''unreachable''))
        \<in> set (drop (length (attempts (demoWorld (demoState True [itemX3] []) [])))
                 (attempts (processPendingItems (demoPlatform rejectingProvider) plainCore 10
                    (demoWorld (demoState True [itemX3] []) []))))
   \<and> shouldRetry itemX3
   \<and> ErrorEvent ''item_sync'' (Rejected ''unreachable'') (ItemSubject itemX3)
        \<in> set (emitted (processPendingItems (demoPlatform rejectingProvider) plainCore 10
                    (demoWorld (demoState True [itemX3] []) [])))
   \<and> itemX3\<lparr>version := 2\<rparr>
        \<in> set (pendingItems (state (processPendingItems (demoPlatform rejectingProvider) plainCore 10
                    (demoWorld (demoState True [itemX3] []) []))))"
proof -
  let ?w = "demoWorld (demoState True [itemX3] []) []"
  let ?P = "demoPlatform rejectingProvider"
  have h1: "\<not> isSyncing (state ?w)" by (simp add: demo_defs)
  have h2: "pendingItems (state ?w) \<noteq> []" by (simp add: demo_defs)
  have h3: "providers ?P (provider (config plainCore)) = Some rejectingProvider"
    by (simp add: demo_defs)
  have h4: "distinct (map itemId (pendingItems (state ?w)))" by (simp add: demo_defs)
  have h5: "(itemX3, Some (Rejected ''unreachable''))
        \<in> set (drop (length (attempts ?w)) (attempts (processPendingItems ?P plainCore 10 ?w)))"
    by (simp add: demo_defs flush_defs itemX3_def)
  have r: "shouldRetry itemX3" by (simp add: shouldRetry_def itemX3_def demoItem_def)
  have e: "emitted ?w = []" by (simp add: demo_defs)
  have v: "version itemX3 + 1 = 2" by (simp add: itemX3_def demoItem_def)
  from failed_delivery_retry_or_drop[OF h1 h2 h3 h4 h5] show ?thesis
    using h1 h2 h3 h4 h5 r e v by simp
qed

text \<open>
  C3 as the specification states it fails in scenario C. Every push of \<open>x3\<close> is
  rejected; the item leaves the outbox in the third cycle, so a fourth push never
  happens, and three error events have fired for it, one per rejected push, each of type
  \<open>item_sync\<close>.
\<close>

theorem scenarioC_three_error_events:
  "pendingItems (state scenarioC) = []
   \<and> emitted scenarioC =
      [SyncStarted, ErrorEvent ''item_sync'' (Rejected ''unreachable'') (ItemSubject itemX3), SyncCompleted 0 1,
       SyncStarted, ErrorEvent ''item_sync'' (Rejected ''unreachable'') (ItemSubject (itemX3\<lparr>version := 2\<rparr>)), SyncCompleted 0 1,
       SyncStarted, ErrorEvent ''item_sync'' (Rejected ''unreachable'') (ItemSubject (itemX3\<lparr>version := 3\<rparr>)), SyncCompleted 1 0]
   \<and> map fst (attempts scenarioC) = [itemX3, itemX3\<lparr>version := 2\<rparr>, itemX3\<lparr>version := 3\<rparr>]"
  by (simp add: scenarioC_def repeatFlush_def plainCore_def itemX3_def demo_defs flush_defs)

subsection \<open>When a flush runs\<close>

text \<open>
  C6. No flush runs while one is in progress or while the engine is offline.
  \<open>processPendingItems\<close> itself returns at once, changing nothing, when \<open>isSyncing\<close>
  holds; it is private, and each of its three call sites tests \<open>isOnline\<close> before it
  calls. So, in a state that is syncing or offline: the connection callback only records
  the connection state; the timer's callback changes nothing; and \<open>syncItem\<close> does what
  it does without a flush: it queues the item, saves and emits \<open>item_queued\<close>, makes no
  provider call and leaves the provider, \<open>lastSync\<close> and the two flags as they are.
\<close>

theorem flush_noop_when_syncing_or_offline:
  "(isSyncing (state w) \<longrightarrow> processPendingItems P core now w = w)
   \<and> (isSyncing (state w) \<or> \<not> online \<longrightarrow>
        onConnectionChange P core now online w = w\<lparr>state := (state w)\<lparr>isOnline := online\<rparr>\<rparr>)
   \<and> (isSyncing (state w) \<or> \<not> isOnline (state w) \<longrightarrow> periodicSync P core now pull w = w)
   \<and> (isSyncing (state w) \<or> \<not> isOnline (state w) \<longrightarrow>
        attempts (snd (syncItem P core env inp w)) = attempts w
        \<and> net (snd (syncItem P core env inp w)) = net w
        \<and> lastSync (state (snd (syncItem P core env inp w))) = lastSync (state w)
        \<and> isSyncing (state (snd (syncItem P core env inp w))) = isSyncing (state w)
        \<and> isOnline (state (snd (syncItem P core env inp w))) = isOnline (state w)
        \<and> (\<forall>c. calculateChecksum (inData inp) = Inr c \<and> shouldSync core (newSyncItem env inp c) \<longrightarrow>
              syncItem P core env inp w =
                (None,
                 emit (ItemQueued ((newSyncItem env inp c)
                          \<lparr>data := (if encryptionEnabled (config core) \<and> encryption core
                                    then JStr (base64 (JSON_stringify (inData inp)))
                                    else inData inp)\<rparr>))
                   (saveState P
                      (w\<lparr>state := (state w)
                           \<lparr>pendingItems := pendingItems (state w) @
                              [(newSyncItem env inp c)
                                 \<lparr>data := (if encryptionEnabled (config core) \<and> encryption core
                                           then JStr (base64 (JSON_stringify (inData inp)))
                                           else inData inp)\<rparr>]\<rparr>\<rparr>)))))"
proof (intro conjI impI allI)
  assume "isSyncing (state w)"
  then show "processPendingItems P core now w = w" by (simp add: processPendingItems_def)
next
  assume "isSyncing (state w) \<or> \<not> online"
  then show "onConnectionChange P core now online w = w\<lparr>state := (state w)\<lparr>isOnline := online\<rparr>\<rparr>"
    by (auto simp: onConnectionChange_def processPendingItems_def)
next
  assume "isSyncing (state w) \<or> \<not> isOnline (state w)"
  then show "periodicSync P core now pull w = w" by (auto simp: periodicSync_def)
next
  assume g: "isSyncing (state w) \<or> \<not> isOnline (state w)"
  show "attempts (snd (syncItem P core env inp w)) = attempts w"
    using g by (auto simp: syncItem_def Let_def split: sum.splits)
  show "net (snd (syncItem P core env inp w)) = net w"
    using g by (auto simp: syncItem_def Let_def split: sum.splits)
  show "lastSync (state (snd (syncItem P core env inp w))) = lastSync (state w)"
    using g by (auto simp: syncItem_def Let_def split: sum.splits)
  show "isSyncing (state (snd (syncItem P core env inp w))) = isSyncing (state w)"
    using g by (auto simp: syncItem_def Let_def split: sum.splits)
  show "isOnline (state (snd (syncItem P core env inp w))) = isOnline (state w)"
    using g by (auto simp: syncItem_def Let_def split: sum.splits)
next
  fix c
  assume g: "isSyncing (state w) \<or> \<not> isOnline (state w)"
    and a: "calculateChecksum (inData inp) = Inr c \<and> shouldSync core (newSyncItem env inp c)"
  have enc: "(if encryptionEnabled (config core) then encrypt (encryption core) (inData inp)
              else Inr (inData inp))
        = Inr (if encryptionEnabled (config core) \<and> encryption core
               then JStr (base64 (JSON_stringify (inData inp))) else inData inp)"
    using a by (auto simp: calculateChecksum_def encrypt_def btoa_def split: if_splits sum.splits)
  show "syncItem P core env inp w =
                (None,
                 emit (ItemQueued ((newSyncItem env inp c)
                          \<lparr>data := (if encryptionEnabled (config core) \<and> encryption core
                                    then JStr (base64 (JSON_stringify (inData inp)))
                                    else inData inp)\<rparr>))
                   (saveState P
                      (w\<lparr>state := (state w)
                           \<lparr>pendingItems := pendingItems (state w) @
                              [(newSyncItem env inp c)
                                 \<lparr>data := (if encryptionEnabled (config core) \<and> encryption core
                                           then JStr (base64 (JSON_stringify (inData inp)))
                                           else inData inp)\<rparr>]\<rparr>\<rparr>)))"
    using g a enc by (auto simp: syncItem_def Let_def)
qed

text \<open>
  The theorem at an engine that is syncing, on which a direct call, the connection
  callback and the timer change nothing, and at an offline engine, on which \<open>syncItem\<close>
  queues an item and pushes nothing.
\<close>

theorem flush_noop_when_syncing_or_offline_witness:
  "isSyncing (state busyOutbox)
   \<and> processPendingItems (demoPlatform acceptingProvider) plainCore 10 busyOutbox = busyOutbox
   \<and> onConnectionChange (demoPlatform acceptingProvider) plainCore 10 True busyOutbox = busyOutbox
   \<and> periodicSync (demoPlatform acceptingProvider) plainCore 10
        (processPendingItems (demoPlatform acceptingProvider) plainCore 20) busyOutbox = busyOutbox
   \<and> \<not> isOnline (state offlineOutbox)
   \<and> periodicSync (demoPlatform acceptingProvider) plainCore 10
        (processPendingItems (demoPlatform acceptingProvider) plainCore 20) offlineOutbox
       = offlineOutbox
   \<and> attempts (snd (syncItem (demoPlatform acceptingProvider) filteringCore demoReadings
                        helloInput offlineOutbox)) = []
   \<and> net (snd (syncItem (demoPlatform acceptingProvider) filteringCore demoReadings
                   helloInput offlineOutbox)) = 0
   \<and> map itemId (pendingItems (state (snd (syncItem (demoPlatform acceptingProvider) filteringCore
                                               demoReadings helloInput offlineOutbox))))
       = [''x3'', ''1700000000000-k3j9x0q1z'']"
proof -
  let ?P = "demoPlatform acceptingProvider"
  let ?pull = "processPendingItems ?P plainCore 20"
  have h1: "isSyncing (state busyOutbox)" by (simp add: busyOutbox_def)
  have h2: "\<not> isOnline (state offlineOutbox)" by (simp add: offlineOutbox_def demo_defs)
  have a: "attempts offlineOutbox = []" "net offlineOutbox = 0"
    by (simp_all add: offlineOutbox_def demo_defs)
  have o: "busyOutbox\<lparr>state := (state busyOutbox)\<lparr>isOnline := True\<rparr>\<rparr> = busyOutbox"
    by (simp add: busyOutbox_def demo_defs)
  have p: "map itemId (pendingItems (state (snd (syncItem ?P filteringCore demoReadings helloInput
                                                  offlineOutbox))))
       = [''x3'', ''1700000000000-k3j9x0q1z'']"
    by (simp add: offlineOutbox_def filteringCore_def clipboardFilter_def helloInput_def
          demoReadings_def itemX3_def demo_defs sync_defs json_defs flush_defs)
  note t1 = flush_noop_when_syncing_or_offline[where w = busyOutbox and P = ?P
      and core = plainCore and now = 10 and online = True and pull = ?pull]
  note t2 = flush_noop_when_syncing_or_offline[where w = offlineOutbox and P = ?P
      and core = plainCore and now = 10 and pull = ?pull]
  note t3 = flush_noop_when_syncing_or_offline[where w = offlineOutbox and P = ?P
      and core = filteringCore and env = demoReadings and inp = helloInput]
  have b1: "processPendingItems ?P plainCore 10 busyOutbox = busyOutbox"
    using t1 h1 by blast
  have b2: "onConnectionChange ?P plainCore 10 True busyOutbox = busyOutbox"
    using t1 h1 o by simp
  have b3: "periodicSync ?P plainCore 10 ?pull busyOutbox = busyOutbox"
    using t1 h1 by blast
  have b4: "periodicSync ?P plainCore 10 ?pull offlineOutbox = offlineOutbox"
    using t2 h2 by blast
  have b5: "attempts (snd (syncItem ?P filteringCore demoReadings helloInput offlineOutbox)) = []"
    "net (snd (syncItem ?P filteringCore demoReadings helloInput offlineOutbox)) = 0"
    using t3 h2 a by simp_all
  show ?thesis using h1 h2 b1 b2 b3 b4 b5 p by simp
qed

section \<open>Conflicts\<close>

text \<open>
  What \<open>detectConflict\<close> returns, over the list \<open>locals\<close> that \<open>storage.getItems\<close> returns
  for the remote item's type and id: the first of them whose checksum differs from the
  remote item's and whose timestamp is less than 5000 ms from the remote item's, paired
  with the remote item in a fresh unresolved conflict; \<open>null\<close> when there is none.
\<close>

lemma detectConflict_over_lookup:
  assumes "getItems (storage P) (itemType r) (itemId r) (store w) = Inr locals"
  shows "detectConflict P core env r w =
     (case find (\<lambda>l. checksum l \<noteq> checksum r \<and> \<bar>timestamp l - timestamp r\<bar> < 5000) locals of
        None \<Rightarrow> Inr None
      | Some l \<Rightarrow>
          Inr (Some \<lparr>conflictId = generateId (idTime env) (idRandom env), local = l, remote = r,
                     strategy = (if conflictStrategy (config core) = ''user_choice''
                                 then ''manual'' else ''auto''),
                     resolved = False, resolution = None, detectedAt = stampTime env\<rparr>))"
  using assms by (simp add: detectConflict_def)

text \<open>
  C2, as the code has it. The lookup is by type and id. Where the storage adapter
  answers \<open>getItems({type, id})\<close> with the locally stored items of that type and id,
  \<open>detectConflict\<close> returns a conflict exactly when some locally stored item has the
  remote item's type and id, a checksum other than the remote item's, and a timestamp
  less than 5000 ms from the remote item's; it returns \<open>null\<close> exactly when none has;
  and the conflict returned pairs such a local item with the remote item, unresolved.
\<close>

theorem detectConflict_iff_type_and_id:
  assumes "getItems (storage P) (itemType r) (itemId r) (store w)
             = Inr (filter (\<lambda>l. itemType l = itemType r \<and> itemId l = itemId r) localStore)"
  shows "((\<exists>c. detectConflict P core env r w = Inr (Some c)) \<longleftrightarrow>
            (\<exists>l\<in>set localStore. itemType l = itemType r \<and> itemId l = itemId r
                \<and> checksum l \<noteq> checksum r \<and> \<bar>timestamp l - timestamp r\<bar> < 5000))
       \<and> (detectConflict P core env r w = Inr None \<longleftrightarrow>
            \<not> (\<exists>l\<in>set localStore. itemType l = itemType r \<and> itemId l = itemId r
                \<and> checksum l \<noteq> checksum r \<and> \<bar>timestamp l - timestamp r\<bar> < 5000))
       \<and> (\<forall>c. detectConflict P core env r w = Inr (Some c) \<longrightarrow>
              remote c = r \<and> local c \<in> set localStore
              \<and> itemType (local c) = itemType r \<and> itemId (local c) = itemId r
              \<and> checksum (local c) \<noteq> checksum r
              \<and> \<bar>timestamp (local c) - timestamp r\<bar> < 5000
              \<and> \<not> resolved c \<and> resolution c = None)"
proof -
  let ?locals = "filter (\<lambda>l. itemType l = itemType r \<and> itemId l = itemId r) localStore"
  let ?hit = "\<lambda>l. checksum l \<noteq> checksum r \<and> \<bar>timestamp l - timestamp r\<bar> < 5000"
  note d = detectConflict_over_lookup[OF assms, of core env]
  show ?thesis
  proof (cases "find ?hit ?locals")
    case None
    then have no: "\<not> (\<exists>l\<in>set localStore. itemType l = itemType r \<and> itemId l = itemId r
                \<and> checksum l \<noteq> checksum r \<and> \<bar>timestamp l - timestamp r\<bar> < 5000)"
      by (auto simp: find_None_iff)
    have "detectConflict P core env r w = Inr None"
      using d None by simp
    with no show ?thesis by simp
  next
    case (Some l)
    then have l: "l \<in> set localStore" "itemType l = itemType r" "itemId l = itemId r"
      "checksum l \<noteq> checksum r" "\<bar>timestamp l - timestamp r\<bar> < 5000"
      by (auto simp: find_Some_iff dest: nth_mem)
    then have yes: "\<exists>l\<in>set localStore. itemType l = itemType r \<and> itemId l = itemId r
                \<and> checksum l \<noteq> checksum r \<and> \<bar>timestamp l - timestamp r\<bar> < 5000"
      by blast
    have "detectConflict P core env r w =
        Inr (Some \<lparr>conflictId = generateId (idTime env) (idRandom env), local = l, remote = r,
                   strategy = (if conflictStrategy (config core) = ''user_choice''
                               then ''manual'' else ''auto''),
                   resolved = False, resolution = None, detectedAt = stampTime env\<rparr>)"
      using d Some by simp
    with yes l show ?thesis by auto
  qed
qed

text \<open>
  The theorem at the two sides of the window: a remote item 4999 ms after the local
  one is a conflict, one 5000 ms after it is not.
\<close>

theorem detectConflict_iff_type_and_id_witness:
  "getItems (storage (demoPlatform acceptingProvider)) (itemType (remoteB 5999)) (itemId (remoteB 5999))
       (store (demoWorld (demoState True [] []) [localA]))
     = Inr (filter (\<lambda>l. itemType l = itemType (remoteB 5999) \<and> itemId l = itemId (remoteB 5999))
              [localA])
   \<and> (\<exists>c. detectConflict (demoPlatform acceptingProvider) plainCore demoReadings (remoteB 5999)
             (demoWorld (demoState True [] []) [localA]) = Inr (Some c)
          \<and> local c = localA \<and> remote c = remoteB 5999)
   \<and> detectConflict (demoPlatform acceptingProvider) plainCore demoReadings (remoteB 6000)
             (demoWorld (demoState True [] []) [localA]) = Inr None"
proof -
  let ?P = "demoPlatform acceptingProvider"
  let ?w = "demoWorld (demoState True [] []) [localA]"
  have h1: "getItems (storage ?P) (itemType (remoteB 5999)) (itemId (remoteB 5999)) (store ?w)
       = Inr (filter (\<lambda>l. itemType l = itemType (remoteB 5999) \<and> itemId l = itemId (remoteB 5999))
                [localA])"
    by (simp add: demo_defs remoteB_def localA_def)
  have h2: "getItems (storage ?P) (itemType (remoteB 6000)) (itemId (remoteB 6000)) (store ?w)
       = Inr (filter (\<lambda>l. itemType l = itemType (remoteB 6000) \<and> itemId l = itemId (remoteB 6000))
                [localA])"
    by (simp add: demo_defs remoteB_def localA_def)
  have c1: "\<exists>l\<in>set [localA]. itemType l = itemType (remoteB 5999) \<and> itemId l = itemId (remoteB 5999)
      \<and> checksum l \<noteq> checksum (remoteB 5999) \<and> \<bar>timestamp l - timestamp (remoteB 5999)\<bar> < 5000"
    by (simp add: demo_defs remoteB_def localA_def json_defs)
  have c2: "\<not> (\<exists>l\<in>set [localA]. itemType l = itemType (remoteB 6000) \<and> itemId l = itemId (remoteB 6000)
      \<and> checksum l \<noteq> checksum (remoteB 6000) \<and> \<bar>timestamp l - timestamp (remoteB 6000)\<bar> < 5000)"
    by (simp add: demo_defs remoteB_def localA_def json_defs)
  note t1 = detectConflict_iff_type_and_id[OF h1, of plainCore demoReadings]
  note t2 = detectConflict_iff_type_and_id[OF h2, of plainCore demoReadings]
  from t1 c1 obtain c where c: "detectConflict ?P plainCore demoReadings (remoteB 5999) ?w = Inr (Some c)"
    by blast
  with t1 have "remote c = remoteB 5999" "local c \<in> set [localA]" by blast+
  with c have a: "\<exists>c. detectConflict ?P plainCore demoReadings (remoteB 5999) ?w = Inr (Some c)
      \<and> local c = localA \<and> remote c = remoteB 5999"
    by auto
  from t2 c2 have b: "detectConflict ?P plainCore demoReadings (remoteB 6000) ?w = Inr None"
    by blast
  show ?thesis using h1 a b by blast
qed

text \<open>
  C2 as the specification states it fails. The local store holds an item with the
  remote item's id, another checksum and a timestamp 2000 ms away, but of another type:
  the lookup by type and id does not return it, and \<open>detectConflict\<close> returns \<open>null\<close>.
\<close>

theorem detectConflict_same_id_other_type:
  "itemId settingsA = itemId (remoteB 3000)
   \<and> checksum settingsA \<noteq> checksum (remoteB 3000)
   \<and> \<bar>timestamp settingsA - timestamp (remoteB 3000)\<bar> < 5000
   \<and> itemType settingsA = ''settings''
   \<and> itemType (remoteB 3000) = ''clipboard''
   \<and> stored (store (demoWorld (demoState True [] []) [settingsA])) = [settingsA]
   \<and> detectConflict (demoPlatform acceptingProvider) plainCore demoReadings (remoteB 3000)
        (demoWorld (demoState True [] []) [settingsA]) = Inr None"
  by (simp add: settingsA_def localA_def remoteB_def detectConflict_def demo_defs json_defs)





lemma applyChange_fields [simp]:
  "state (snd (applyChange P item w)) = state w"
  "emitted (snd (applyChange P item w)) = emitted w"
  by (simp_all add: applyChange_def split: prod.splits)





section \<open>Encryption\<close>

text \<open>
  C7 on the code. With the service disabled the round trip returns the payload. With
  the service enabled, a string payload with code units outside Latin-1 makes \<open>btoa\<close>,
  and so \<open>encrypt\<close>, throw: the round trip returns no payload at all.
\<close>

theorem roundTrip_fails_outside_latin1:
  "roundTrip js False d = Inr d
   \<and> roundTrip js True (JStr [26085, 26412, 35486]) = Inl InvalidCharacterError"
  by (simp add: roundTrip_def encrypt_def decrypt_def btoa_def quoteJSONString_def
        isLeadingSurrogate_def isTrailingSurrogate_def escapeUnit_def)

text \<open>
  Where the JSON text of the payload is within Latin-1, the round trip returns the
  payload as soon as the engine's \<open>atob\<close> decodes what \<open>btoa\<close> produced and its
  \<open>JSON.parse\<close> reads back what \<open>JSON.stringify\<close> wrote.
\<close>

lemma roundTrip_within_latin1:
  assumes "list_all (\<lambda>c. c \<le> 255) (JSON_stringify d)"
    and "atob js (base64 (JSON_stringify d)) = Inr (JSON_stringify d)"
    and "JSON_parse js (JSON_stringify d) = Inr d"
  shows "roundTrip js True d = Inr d"
  using assms by (simp add: roundTrip_def encrypt_def decrypt_def btoa_def)

section \<open>Queueing an item\<close>







text \<open>
  C10 on the code. With no filter configured for the type, a payload outside
  Latin-1 is not discarded silently: the checksum is computed before the filters are
  consulted, \<open>btoa\<close> throws, and \<open>syncItem\<close> emits an error event and throws.
\<close>

theorem syncItem_throws_before_filtering:
  "find (\<lambda>f. filterType f = inType japaneseInput) (filters (config plainCore)) = None
   \<and> syncItem P plainCore env japaneseInput w =
       (Some InvalidCharacterError,
        emit (ErrorEvent ''sync_item'' InvalidCharacterError (InputSubject japaneseInput)) w)"
  by (simp add: syncItem_def calculateChecksum_def japaneseInput_def plainCore_def demo_defs btoa_def
        quoteJSONString_def isLeadingSurrogate_def isTrailingSurrogate_def escapeUnit_def)

text \<open>
  Where the checksum can be computed, the rest of C10 holds: an item whose type has no
  filter, or a disabled one, is not queued, and \<open>syncItem\<close> returns normally and
  changes nothing.
\<close>

lemma shouldSync_default_deny:
  assumes "find (\<lambda>f. filterType f = itemType item) (filters (config core)) = None
           \<or> (\<exists>f. find (\<lambda>f. filterType f = itemType item) (filters (config core)) = Some f
                   \<and> \<not> filterEnabled f)"
  shows "\<not> shouldSync core item"
  using assms by (auto simp: shouldSync_def)

lemma syncItem_discards_silently:
  assumes "calculateChecksum (inData inp) = Inr c"
    and "find (\<lambda>f. filterType f = inType inp) (filters (config core)) = None
           \<or> (\<exists>f. find (\<lambda>f. filterType f = inType inp) (filters (config core)) = Some f
                   \<and> \<not> filterEnabled f)"
  shows "syncItem P core env inp w = (None, w)"
proof -
  have "\<not> shouldSync core (newSyncItem env inp c)"
    using assms(2) by (intro shouldSync_default_deny) (simp add: newSyncItem_def)
  with assms(1) show ?thesis by (simp add: syncItem_def)
qed

end
